theory Spec2Isabelle
  imports Complex_Main "HOL-Library.Word"
begin

unbundle bit_operations_syntax

section \<open>JavaScript strings and numbers\<close>

text \<open>
  A JavaScript string is modelled as a \<open>string\<close>: a list of code units, each read by
  \<open>charCodeAt\<close> as \<open>of_char\<close> (code units up to 255, the Latin-1 range).
  A JavaScript Number that holds a measure (a similarity, a distance, a vector component)
  is modelled as a \<open>real\<close>: rounding of IEEE doubles is not modelled. Numbers that
  hold counts and indices are \<open>nat\<close> or \<open>int\<close>.
\<close>

definition is_space :: "char \<Rightarrow> bool" where
  \<comment> \<open>the class \<open>\s\<close> of a regular expression, and the characters \<open>trim\<close> removes\<close>
  "is_space c = (of_char c \<in> {9, 10, 11, 12, 13, 32, 160 :: nat})"

definition lower_char :: "char \<Rightarrow> char" where
  "lower_char c =
     (let n = (of_char c :: nat)
      in if (65 \<le> n \<and> n \<le> 90) \<or> (192 \<le> n \<and> n \<le> 222 \<and> n \<noteq> 215)
         then char_of (n + 32) else c)"

definition toLowerCase :: "string \<Rightarrow> string" where
  "toLowerCase s = map lower_char s"

definition trim :: "string \<Rightarrow> string" where
  "trim s = rev (dropWhile is_space (rev (dropWhile is_space s)))"

text \<open>
  \<open>s.split(/[...]+/)\<close> for a character class \<open>P\<close>: the pieces between the maximal runs
  of characters of the class. A run at the start gives a leading empty piece, a run at
  the end a trailing empty piece, and the empty string gives one empty piece.
  \<open>insep\<close> says that the previous character belonged to a run.
\<close>

fun split_runs :: "(char \<Rightarrow> bool) \<Rightarrow> bool \<Rightarrow> string \<Rightarrow> string \<Rightarrow> string list" where
  "split_runs P insep cur [] = [cur]"
| "split_runs P insep cur (c # cs) =
     (if P c then (if insep then split_runs P True [] cs
                   else cur # split_runs P True [] cs)
      else split_runs P False (cur @ [c]) cs)"

definition split_regex :: "(char \<Rightarrow> bool) \<Rightarrow> string \<Rightarrow> string list" where
  "split_regex P s = split_runs P False [] s"

section \<open>vectorService.js: the embedding provider\<close>

datatype error = Error string

text \<open>
  \<open>simpleHash\<close>: \<open>hash << 5\<close> is a 32-bit shift, the subtraction and the addition are
  exact on numbers of this size, and \<open>hash & hash\<close> brings the sum back to a signed
  32-bit integer. So each step is 32-bit wrap-around arithmetic, and the result is the
  word read as two's complement.
\<close>

fun simpleHash_loop :: "32 word \<Rightarrow> string \<Rightarrow> 32 word" where
  "simpleHash_loop hash [] = hash"
| "simpleHash_loop hash (c # cs) =
     simpleHash_loop ((push_bit 5 hash - hash) + of_nat (of_char c)) cs"

definition simpleHash :: "string \<Rightarrow> int" where
  "simpleHash str = sint (simpleHash_loop 0 str)"

definition position :: "string \<Rightarrow> nat" where
  \<comment> \<open>\<open>Math.abs(hash) % embedding.length\<close>, the length being 384\<close>
  "position word = nat (\<bar>simpleHash word\<bar> mod 384)"

text \<open>The body of \<open>words.forEach((word, index) => ...)\<close>, from index \<open>index\<close> on.\<close>

fun forEach_word :: "string list \<Rightarrow> nat \<Rightarrow> real list \<Rightarrow> real list" where
  "forEach_word [] index embedding = embedding"
| "forEach_word (word # words) index embedding =
     forEach_word words (index + 1)
       (embedding[position word := embedding ! position word + 1 / (real index + 1)])"

definition magnitude_of :: "real list \<Rightarrow> real" where
  "magnitude_of embedding = sqrt (foldl (\<lambda>sum val. sum + val * val) 0 embedding)"

definition createFallbackEmbedding :: "string \<Rightarrow> real list" where
  "createFallbackEmbedding text =
     (let words = split_regex is_space (toLowerCase text);
          embedding = forEach_word words 0 (replicate 384 0);
          magnitude = magnitude_of embedding
      in if magnitude > 0 then map (\<lambda>val. val / magnitude) embedding else embedding)"

text \<open>
  \<open>createEmbeddings\<close>: \<open>provider\<close> is the call to the embedding model
  (\<open>embedContent\<close> and the read of \<open>result.embedding.values\<close>), which returns a
  vector or throws.
\<close>

definition createEmbeddings :: "(string \<Rightarrow> error + real list) \<Rightarrow> string \<Rightarrow> real list" where
  "createEmbeddings provider text =
     (case provider text of
        Inr values \<Rightarrow> values
      | Inl err \<Rightarrow> createFallbackEmbedding text)"

text \<open>
  The fallback algorithm in the words of the specification: the weight of a slot is the
  sum of \<open>1/(i+1)\<close> over the positions \<open>i\<close> of the words that hash to the slot; the
  vector of the 384 weights is divided by its Euclidean norm unless it is all zero.
\<close>

definition spec_weight :: "string list \<Rightarrow> nat \<Rightarrow> real" where
  "spec_weight words slot =
     (\<Sum>i\<leftarrow>[0..<length words]. if position (words ! i) = slot then 1 / (real i + 1) else 0)"



text \<open>An embedding provider that is down: every call throws.\<close>

definition provider_down :: "string \<Rightarrow> error + real list" where
  "provider_down text = Inl (Error ''unavailable'')"

section \<open>config/database.js: the durable store\<close>

record document =
  doc_id :: int
  user_id :: int
  original_name :: string
  processed :: bool

record document_chunk =
  document_id :: int
  chunk_text :: string
  chunk_index :: int
  embedding_id :: string

text \<open>
  A statement run against the database either succeeds or is rejected with an error
  (\<open>runAsync\<close>, \<open>getAsync\<close> and \<open>allAsync\<close> reject their promise). Which statements
  are rejected is a parameter of the store, \<open>rejects\<close>.
\<close>

datatype statement =
    SelectDocument int
  | UpdateProcessed int bool
  | InsertChunk int string int string
  | SelectChunks int

record database =
  documents :: "document list"
  document_chunks :: "document_chunk list"
  rejects :: "statement \<Rightarrow> bool"

definition sqlite_error :: error where
  "sqlite_error = Error ''SQLITE_ERROR''"

definition getDocumentById :: "database \<Rightarrow> int \<Rightarrow> error + document option" where
  "getDocumentById db i =
     (if rejects db (SelectDocument i) then Inl sqlite_error
      else Inr (find (\<lambda>d. doc_id d = i) (documents db)))"

definition updateDocumentProcessed :: "database \<Rightarrow> int \<Rightarrow> bool \<Rightarrow> error + database" where
  "updateDocumentProcessed db i p =
     (if rejects db (UpdateProcessed i p) then Inl sqlite_error
      else Inr (db\<lparr>documents := map (\<lambda>d. if doc_id d = i then d\<lparr>processed := p\<rparr> else d) (documents db)\<rparr>))"

definition createDocumentChunk :: "database \<Rightarrow> int \<Rightarrow> string \<Rightarrow> int \<Rightarrow> string \<Rightarrow> error + database" where
  "createDocumentChunk db documentId chunkText chunkIndex embeddingId =
     (if rejects db (InsertChunk documentId chunkText chunkIndex embeddingId) then Inl sqlite_error
      else Inr (db\<lparr>document_chunks := document_chunks db @
                  [\<lparr>document_id = documentId, chunk_text = chunkText,
                    chunk_index = chunkIndex, embedding_id = embeddingId\<rparr>]\<rparr>))"

definition getDocumentChunks :: "database \<Rightarrow> int \<Rightarrow> error + document_chunk list" where
  \<comment> \<open>\<open>SELECT * FROM document_chunks WHERE document_id = ? ORDER BY chunk_index\<close>\<close>
  "getDocumentChunks db documentId =
     (if rejects db (SelectChunks documentId) then Inl sqlite_error
      else Inr (sort_key chunk_index
                  (filter (\<lambda>c. document_id c = documentId) (document_chunks db))))"

section \<open>vectorService.js: the vector index and similarity search\<close>

record metadata =
  meta_document_id :: int
  meta_chunk_index :: int

text \<open>
  One entry of the answer of \<open>coll.query\<close>: \<open>documents[0][i]\<close>, \<open>metadatas[0][i]\<close> and
  \<open>distances[0][i]\<close>; a distance that is missing is \<open>None\<close>. An answer without documents
  is the empty list.
\<close>

record query_row =
  row_document :: string
  row_metadata :: metadata
  row_distance :: "real option"

text \<open>
  The collection of the index service, as far as the code uses it: \<open>coll_query\<close> takes
  the query embedding, \<open>nResults\<close> and the \<open>where\<close> clause (\<open>None\<close> for
  \<open>undefined\<close>, \<open>Some d\<close> for \<open>{ document_id: d }\<close>) and returns rows or throws;
  \<open>coll_add\<close> takes an id, an embedding, a text and its metadata and says whether the
  entry was accepted (otherwise it throws).
\<close>

record collection =
  coll_query :: "real list \<Rightarrow> nat \<Rightarrow> int option \<Rightarrow> error + query_row list"
  coll_add :: "string \<Rightarrow> real list \<Rightarrow> string \<Rightarrow> metadata \<Rightarrow> bool"

text \<open>
  A result of the search. The fields \<open>text\<close>, \<open>metadata\<close>, \<open>similarity\<close>,
  \<open>documentId\<close> and \<open>chunkIndex\<close> of the source are \<open>res_text\<close>, \<open>res_metadata\<close>,
  \<open>similarity\<close>, \<open>res_documentId\<close> and \<open>res_chunkIndex\<close>.
\<close>

record retrieval_result =
  res_text :: string
  res_metadata :: metadata
  similarity :: real
  res_documentId :: int
  res_chunkIndex :: int

text \<open>
  What the pipeline talks to: the embedding provider, the collection that
  \<open>getCollection\<close> returns (\<open>None\<close> when the index service is not available), the
  database and the generation service (\<open>generateContent\<close> and the read of its text).
\<close>

record env =
  embedContent :: "string \<Rightarrow> error + real list"
  getCollection :: "collection option"
  dbUtils :: database
  generateContent :: "string \<Rightarrow> error + string"

definition truthy :: "int option \<Rightarrow> bool" where
  \<comment> \<open>\<open>documentId ? ... : ...\<close>: \<open>null\<close> and \<open>0\<close> are falsy\<close>
  "truthy documentId = (case documentId of None \<Rightarrow> False | Some d \<Rightarrow> d \<noteq> 0)"

text \<open>
  The fallback of \<open>searchSimilarChunks\<close>: the chunks of the document from the database,
  cut to \<open>topK\<close>, with mock scores that start at \<open>first\<close> (0.8 when there is no
  collection, 0.7 in the \<open>catch\<close> block).
\<close>

definition fallback_search :: "real \<Rightarrow> database \<Rightarrow> int option \<Rightarrow> nat \<Rightarrow> error + retrieval_result list" where
  "fallback_search first db documentId topK =
     (case documentId of
        None \<Rightarrow> Inr []
      | Some d \<Rightarrow>
          if d = 0 then Inr []
          else (case getDocumentChunks db d of
                  Inl err \<Rightarrow> Inl err
                | Inr chunks \<Rightarrow>
                    Inr (map (\<lambda>(index, chunk).
                           \<lparr>res_text = chunk_text chunk,
                            res_metadata = \<lparr>meta_document_id = d, meta_chunk_index = chunk_index chunk\<rparr>,
                            similarity = first - real index * 0.1,
                            res_documentId = d,
                            res_chunkIndex = chunk_index chunk\<rparr>)
                         (enumerate 0 (take topK chunks)))))"

definition format_row :: "query_row \<Rightarrow> retrieval_result" where
  "format_row row =
     \<lparr>res_text = row_document row,
      res_metadata = row_metadata row,
      similarity = 1 - (case row_distance row of None \<Rightarrow> 0 | Some distance \<Rightarrow> distance),
      res_documentId = meta_document_id (row_metadata row),
      res_chunkIndex = meta_chunk_index (row_metadata row)\<rparr>"

definition searchSimilarChunks :: "env \<Rightarrow> string \<Rightarrow> int option \<Rightarrow> nat \<Rightarrow> error + retrieval_result list" where
  "searchSimilarChunks e query documentId topK =
     (case getCollection e of
        None \<Rightarrow>
          (case fallback_search 0.8 (dbUtils e) documentId topK of
             Inr results \<Rightarrow> Inr results
           | Inl err \<Rightarrow> fallback_search 0.7 (dbUtils e) documentId topK)
      | Some c \<Rightarrow>
          (let queryEmbedding = createEmbeddings (embedContent e) query;
               whereClause = (if truthy documentId then documentId else None)
           in case coll_query c queryEmbedding topK whereClause of
                Inr rows \<Rightarrow> Inr (map format_row rows)
              | Inl err \<Rightarrow> fallback_search 0.7 (dbUtils e) documentId topK))"

section \<open>aiService.js: composing a response\<close>

text \<open>
  A number inside a template literal: the decimal digits of a natural number, and a
  minus sign before those of a negative integer.
\<close>

definition digit :: "nat \<Rightarrow> char" where
  "digit d = char_of (of_char (CHR ''0'') + d)"

fun decimal :: "nat \<Rightarrow> string" where
  "decimal n = (if n div 10 = 0 then [] else decimal (n div 10)) @ [digit (n mod 10)]"

definition Number_toString :: "int \<Rightarrow> string" where
  "Number_toString k = (if k < 0 then CHR ''-'' # decimal (nat (- k)) else decimal (nat k))"

fun join :: "string \<Rightarrow> string list \<Rightarrow> string" where
  "join sep [] = []"
| "join sep [x] = x"
| "join sep (x # y # ys) = x @ sep @ join sep (y # ys)"

definition slice_last :: "nat \<Rightarrow> 'a list \<Rightarrow> 'a list" where
  \<comment> \<open>\<open>xs.slice(-n)\<close>; \<open>slice(-0)\<close> is \<open>slice(0)\<close>, the whole array\<close>
  "slice_last n xs = (if n = 0 then xs else drop (length xs - n) xs)"

definition Math_round :: "real \<Rightarrow> int" where
  \<comment> \<open>\<open>Math.round\<close>: the nearest integer, a half rounded up\<close>
  "Math_round x = \<lfloor>x + 1 / 2\<rfloor>"

definition nl :: string where
  "nl = [CHR 0x0A]"

record message =
  role :: string
  content :: string

text \<open>
  The entries of \<open>sources\<close>: \<open>text\<close>, \<open>similarity\<close> and either \<open>chunkIndex\<close> (for a
  document) or \<open>documentId\<close> (for a general answer).
\<close>

record source =
  src_text :: string
  src_chunkIndex :: "int option"
  src_documentId :: "int option"
  src_similarity :: real

text \<open>
  The object a composition returns: its fields \<open>response\<close>, \<open>sources\<close>,
  \<open>confidence\<close>, \<open>documentName\<close> and \<open>error\<close>, the last two present or not.
\<close>

record response =
  resp_response :: string
  resp_sources :: "source list"
  confidence :: int
  resp_documentName :: "string option"
  resp_error :: "string option"

definition context_of :: "retrieval_result list \<Rightarrow> string" where
  "context_of relevantChunks =
     join (nl @ nl)
       (map (\<lambda>(index, chunk). ''[Context '' @ decimal (index + 1) @ '']: '' @ res_text chunk)
          (enumerate 0 relevantChunks))"

definition historyContext_of :: "nat \<Rightarrow> message list \<Rightarrow> string" where
  "historyContext_of n conversationHistory =
     (if length conversationHistory > 0
      then join nl (map (\<lambda>msg. role msg @ '': '' @ content msg) (slice_last n conversationHistory))
      else [])"

definition previous_conversation :: "string \<Rightarrow> string" where
  "previous_conversation historyContext =
     (if historyContext \<noteq> [] then ''Previous conversation:'' @ nl @ historyContext @ nl else [])"

definition document_prompt :: "string \<Rightarrow> string \<Rightarrow> string \<Rightarrow> string \<Rightarrow> string" where
  \<open>document_prompt documentName context historyContext query =
     ''You are Docu Genie, an intelligent assistant that helps users understand their documents. You have access to content from "''
       @ documentName
       @ ''" and should provide helpful, accurate answers based on the document content.'' @ nl
     @ nl
     @ ''Context from the document:'' @ nl
     @ context @ nl
     @ nl
     @ previous_conversation historyContext @ nl
     @ nl
     @ ''Current question: '' @ query @ nl
     @ nl
     @ ''Instructions:'' @ nl
     @ ''1. Answer the question based primarily on the provided document context'' @ nl
     @ ''2. Be conversational and educational in your tone'' @ nl
     @ ''3. If the context doesn\'t fully answer the question, acknowledge this and provide what information you can'' @ nl
     @ ''4. Use examples from the document when helpful'' @ nl
     @ ''5. If asked to explain concepts, break them down clearly'' @ nl
     @ ''6. Keep responses focused and concise (under 500 words)'' @ nl
     @ ''7. Don\'t make up information that\'s not in the provided context'' @ nl
     @ nl
     @ ''Answer:''\<close>

definition no_grounding :: response where
  \<open>no_grounding =
     \<lparr>resp_response = ''I couldn\'t find relevant information in the document to answer your question. Could you try rephrasing your question or asking about a different topic from the document?'',
      resp_sources = [],
      confidence = 0,
      resp_documentName = None,
      resp_error = None\<rparr>\<close>

definition document_error :: "string \<Rightarrow> response" where
  \<open>document_error msg =
     \<lparr>resp_response = ''I\'m sor'' @ ''ry, I encountered an error while processing your question. Please try again or rephrase your question.'',
      resp_sources = [],
      confidence = 0,
      resp_documentName = None,
      resp_error = Some msg\<rparr>\<close>

definition avgConfidence_of :: "retrieval_result list \<Rightarrow> real" where
  "avgConfidence_of relevantChunks =
     (if length relevantChunks > 0
      then foldl (\<lambda>sum chunk. sum + similarity chunk) 0 relevantChunks / real (length relevantChunks)
      else 0)"

text \<open>
  \<open>generateDocumentResponse\<close> returns the response together with the prompts it sent to
  the generation service, in order: the list is empty when the service was not called.
\<close>

definition generateDocumentResponse :: "env \<Rightarrow> string \<Rightarrow> int \<Rightarrow> message list \<Rightarrow> response \<times> string list" where
  "generateDocumentResponse e query documentId conversationHistory =
     (case searchSimilarChunks e query (Some documentId) 5 of
        Inl (Error msg) \<Rightarrow> (document_error msg, [])
      | Inr relevantChunks \<Rightarrow>
          if length relevantChunks = 0 then (no_grounding, [])
          else (case getDocumentById (dbUtils e) documentId of
                  Inl (Error msg) \<Rightarrow> (document_error msg, [])
                | Inr doc \<Rightarrow>
                    (let documentName = (case doc of Some d \<Rightarrow> original_name d | None \<Rightarrow> ''the document'');
                         prompt = document_prompt documentName (context_of relevantChunks)
                                    (historyContext_of 6 conversationHistory) query
                     in case generateContent e prompt of
                          Inl (Error msg) \<Rightarrow> (document_error msg, [prompt])
                        | Inr text \<Rightarrow>
                            (\<lparr>resp_response = text,
                              resp_sources = map (\<lambda>chunk.
                                  \<lparr>src_text = take 200 (res_text chunk) @ ''...'',
                                   src_chunkIndex = Some (res_chunkIndex chunk),
                                   src_documentId = None,
                                   src_similarity = similarity chunk\<rparr>) relevantChunks,
                              confidence = Math_round (avgConfidence_of relevantChunks * 100),
                              resp_documentName = Some documentName,
                              resp_error = None\<rparr>, [prompt]))))"

definition general_prompt :: "string option \<Rightarrow> string \<Rightarrow> string \<Rightarrow> string" where
  \<open>general_prompt context historyContext query =
     ''You are Docu Genie, a helpful document assistant. '' @
     (case context of
        Some ctx \<Rightarrow>
          ''I found some relevant information from your uploaded documents:'' @ nl
          @ nl
          @ ctx @ nl
          @ nl
          @ previous_conversation historyContext @ nl
          @ nl
          @ ''Question: '' @ query @ nl
          @ nl
          @ ''Please provide a helpful response based on the available context and your knowledge.''
      | None \<Rightarrow>
          previous_conversation historyContext @ nl
          @ nl
          @ ''Question: '' @ query @ nl
          @ nl
          @ ''Please provide a helpful educational response. If this is about study materials, suggest that the user upload their documents for more specific help.'')\<close>

definition general_error :: "string \<Rightarrow> response" where
  \<open>general_error msg =
     \<lparr>resp_response = ''I\'m sor'' @ ''ry, I encountered an error while processing your question. Please try again.'',
      resp_sources = [],
      confidence = 0,
      resp_documentName = None,
      resp_error = Some msg\<rparr>\<close>

definition generateGeneralResponse :: "env \<Rightarrow> string \<Rightarrow> message list \<Rightarrow> response \<times> string list" where
  "generateGeneralResponse e query conversationHistory =
     (case searchSimilarChunks e query None 3 of
        Inl (Error msg) \<Rightarrow> (general_error msg, [])
      | Inr relevantChunks \<Rightarrow>
          (let historyContext = historyContext_of 4 conversationHistory;
               prompt = general_prompt
                          (if length relevantChunks > 0 then Some (context_of relevantChunks) else None)
                          historyContext query
           in case generateContent e prompt of
                Inl (Error msg) \<Rightarrow> (general_error msg, [prompt])
              | Inr text \<Rightarrow>
                  (\<lparr>resp_response = text,
                    resp_sources = map (\<lambda>chunk.
                        \<lparr>src_text = take 200 (res_text chunk) @ ''...'',
                         src_chunkIndex = None,
                         src_documentId = Some (res_documentId chunk),
                         src_similarity = similarity chunk\<rparr>) relevantChunks,
                    confidence = (if length relevantChunks > 0 then 75 else 50),
                    resp_documentName = None,
                    resp_error = None\<rparr>, [prompt])))"

section \<open>aiService.js: the chunker\<close>

text \<open>
  \<open>s.replace(/[...]+/g, r)\<close> for a character class \<open>P\<close>: every maximal run of
  characters of the class becomes the one character \<open>r\<close>.
\<close>

fun replace_runs :: "(char \<Rightarrow> bool) \<Rightarrow> char \<Rightarrow> bool \<Rightarrow> string \<Rightarrow> string" where
  "replace_runs P r insep [] = []"
| "replace_runs P r insep (c # cs) =
     (if P c then (if insep then replace_runs P r True cs else r # replace_runs P r True cs)
      else c # replace_runs P r False cs)"

definition is_digit :: "char \<Rightarrow> bool" where
  "is_digit c = (48 \<le> (of_char c :: nat) \<and> (of_char c :: nat) \<le> 57)"

definition is_terminal :: "char \<Rightarrow> bool" where
  \<comment> \<open>the class \<open>[.!?]\<close>\<close>
  "is_terminal c = (c = CHR ''.'' \<or> c = CHR ''!'' \<or> c = CHR ''?'')"

text \<open>
  A match of \<open>/--- Page \d+ ---/\<close> at the start of \<open>s\<close>: the rest of \<open>s\<close> after the
  match. The digits are taken greedily; giving one back cannot help, since a space must
  follow them.
\<close>

definition match_marker :: "string \<Rightarrow> string option" where
  "match_marker s =
     (if take 9 s = ''--- Page '' then
        (let digits = takeWhile is_digit (drop 9 s);
             rest = dropWhile is_digit (drop 9 s)
         in if digits \<noteq> [] \<and> take 4 rest = '' ---'' then Some (drop 4 rest) else None)
      else None)"

lemma match_marker_shorter: "match_marker s = Some rest \<Longrightarrow> length rest < length s"
proof -
  assume m: "match_marker s = Some rest"
  then have nine: "take 9 s = ''--- Page ''"
    by (simp add: match_marker_def split: if_splits)
  then have "length (take 9 s) = 9" by simp
  then have len: "9 \<le> length s" by simp
  have "rest = drop 4 (dropWhile is_digit (drop 9 s))"
    using m nine by (simp add: match_marker_def Let_def split: if_splits)
  then have "length rest \<le> length (drop 9 s)"
    using length_dropWhile_le [of is_digit "drop 9 s"] by simp
  then show ?thesis using len by simp
qed

function remove_markers :: "string \<Rightarrow> string" where
  "remove_markers [] = []"
| "remove_markers (c # cs) =
     (case match_marker (c # cs) of
        Some rest \<Rightarrow> remove_markers rest
      | None \<Rightarrow> c # remove_markers cs)"
  by pat_completeness auto
termination
  by (relation "measure length") (auto dest: match_marker_shorter)

definition clean_text :: "string \<Rightarrow> string" where
  "clean_text text =
     trim (remove_markers
            (replace_runs (\<lambda>c. c = CHR 0x0A) (CHR 0x0A) False
               (replace_runs is_space (CHR '' '') False text)))"

fun split_char :: "char \<Rightarrow> string \<Rightarrow> string \<Rightarrow> string list" where
  \<comment> \<open>\<open>s.split(sep)\<close> for a separator of one character\<close>
  "split_char sep cur [] = [cur]"
| "split_char sep cur (c # cs) =
     (if c = sep then cur # split_char sep [] cs else split_char sep (cur @ [c]) cs)"

definition seed :: "nat \<Rightarrow> string \<Rightarrow> string \<Rightarrow> string" where
  \<comment> \<open>the start of a new chunk: the overlap words of the closed chunk, then the sentence\<close>
  "seed overlapSize currentChunk trimmedSentence =
     (let words = split_char (CHR '' '') [] currentChunk;
          overlapWords = slice_last (overlapSize div 10) words
      in join '' '' overlapWords @ '' '' @ trimmedSentence)"

text \<open>The loop over the sentences: the chunks closed so far and the current chunk.\<close>

fun for_sentences :: "nat \<Rightarrow> nat \<Rightarrow> string list \<Rightarrow> string list \<Rightarrow> string \<Rightarrow> string list \<times> string" where
  "for_sentences maxChunkSize overlapSize [] chunks currentChunk = (chunks, currentChunk)"
| "for_sentences maxChunkSize overlapSize (sentence # sentences) chunks currentChunk =
     (let trimmedSentence = trim sentence
      in if length currentChunk + length trimmedSentence > maxChunkSize \<and> length currentChunk > 0
         then for_sentences maxChunkSize overlapSize sentences
                (chunks @ [trim currentChunk]) (seed overlapSize currentChunk trimmedSentence)
         else for_sentences maxChunkSize overlapSize sentences chunks
                (currentChunk @ (if currentChunk \<noteq> [] then '' '' else []) @ trimmedSentence))"

text \<open>
  \<open>text.lastIndexOf(c, fromIndex)\<close>: the greatest index at most \<open>fromIndex\<close> (clamped to
  the string) that holds \<open>c\<close>, or \<open>-1\<close>.
\<close>

fun last_index_scan :: "char \<Rightarrow> string \<Rightarrow> int \<Rightarrow> int \<Rightarrow> int" where
  "last_index_scan c [] i best = best"
| "last_index_scan c (x # xs) i best = last_index_scan c xs (i + 1) (if x = c then i else best)"

definition lastIndexOf :: "string \<Rightarrow> char \<Rightarrow> int \<Rightarrow> int" where
  "lastIndexOf s c fromIndex =
     last_index_scan c (take (nat (min (max fromIndex 0) (int (length s) - 1)) + 1) s) 0 (- 1)"

text \<open>
  \<open>text.slice(start, end)\<close>: a negative index counts from the end of the string, and
  both indices are clamped to the string.
\<close>

definition slice :: "string \<Rightarrow> int \<Rightarrow> int \<Rightarrow> string" where
  "slice s start end =
     (let len = int (length s);
          from = (if start < 0 then max (len + start) 0 else min start len);
          to = (if end < 0 then max (len + end) 0 else min end len)
      in if from < to then take (nat (to - from)) (drop (nat from) s) else [])"

text \<open>
  The \<open>while\<close> loop of \<open>splitByCharacterLimit\<close>. Nothing bounds the number of its
  rounds, so it is a partial function: \<open>None\<close> is a loop that never ends.
\<close>

partial_function (option) splitByCharacterLimit_loop ::
  "string \<Rightarrow> int \<Rightarrow> int \<Rightarrow> int \<Rightarrow> string list \<Rightarrow> string list option" where
  [code]: "splitByCharacterLimit_loop text maxChunkSize overlapSize start chunks =
     (if start < int (length text) then
        (let end0 = start + maxChunkSize;
             lastSpaceIndex = lastIndexOf text (CHR '' '') end0;
             end = (if end0 < int (length text) \<and> lastSpaceIndex > start then lastSpaceIndex else end0)
         in splitByCharacterLimit_loop text maxChunkSize overlapSize (end - overlapSize)
              (chunks @ [trim (slice text start end)]))
      else Some (filter (\<lambda>chunk. length chunk > 0) chunks))"

definition splitByCharacterLimit :: "string \<Rightarrow> nat \<Rightarrow> nat \<Rightarrow> string list option" where
  "splitByCharacterLimit text maxChunkSize overlapSize =
     splitByCharacterLimit_loop text (int maxChunkSize) (int overlapSize) 0 []"

definition sentences_of :: "string \<Rightarrow> string list" where
  \<comment> \<open>\<open>cleanedText.split(/[.!?]+/).filter(sentence => sentence.trim().length > 0)\<close>\<close>
  "sentences_of cleanedText =
     filter (\<lambda>sentence. length (trim sentence) > 0) (split_regex is_terminal cleanedText)"

definition splitTextIntoChunks :: "string \<Rightarrow> nat \<Rightarrow> nat \<Rightarrow> string list option" where
  "splitTextIntoChunks text maxChunkSize overlapSize =
     (let cleanedText = clean_text text;
          sentences = sentences_of cleanedText;
          (chunks0, currentChunk) = for_sentences maxChunkSize overlapSize sentences [] [];
          chunks = (if trim currentChunk \<noteq> [] then chunks0 @ [trim currentChunk] else chunks0)
      in if length chunks = 0 \<and> length cleanedText > 0
         then splitByCharacterLimit cleanedText maxChunkSize overlapSize
         else Some chunks)"

section \<open>aiService.js: ingestion\<close>

definition storeInVectorDB :: "collection option \<Rightarrow> int \<Rightarrow> string \<Rightarrow> real list \<Rightarrow> nat \<Rightarrow> string" where
  "storeInVectorDB c documentId text embedding chunkIndex =
     (let fallbackId = ''fallback_doc_'' @ Number_toString documentId @ ''_chunk_'' @ decimal chunkIndex
      in case c of
           None \<Rightarrow> fallbackId
         | Some cl \<Rightarrow>
             (let embeddingId = ''doc_'' @ Number_toString documentId @ ''_chunk_'' @ decimal chunkIndex
              in if coll_add cl embeddingId embedding text
                      \<lparr>meta_document_id = documentId, meta_chunk_index = int chunkIndex\<rparr>
                 then embeddingId else fallbackId))"

text \<open>
  The loop over the chunks, from index \<open>i\<close> on. Of the three calls in its \<open>try\<close>
  block, \<open>createEmbeddings\<close> and \<open>storeInVectorDB\<close> catch their own errors, and a
  rejected \<open>createDocumentChunk\<close> is caught by the loop, which goes on with the
  next chunk.
\<close>

fun process_chunks :: "env \<Rightarrow> int \<Rightarrow> string list \<Rightarrow> nat \<Rightarrow> database \<Rightarrow> database" where
  "process_chunks e documentId [] i d = d"
| "process_chunks e documentId (chunk # chunks) i d =
     (let embedding = createEmbeddings (embedContent e) chunk;
          embeddingId = storeInVectorDB (getCollection e) documentId chunk embedding i
      in case createDocumentChunk d documentId chunk (int i) embeddingId of
           Inr d' \<Rightarrow> process_chunks e documentId chunks (i + 1) d'
         | Inl chunkError \<Rightarrow> process_chunks e documentId chunks (i + 1) d)"

text \<open>
  The extraction step reads files and calls the PDF, OCR and Word libraries: its two
  entry points are parameters, each returning the text of the file at a path or throwing.
\<close>

record extractors =
  extractPDFText :: "string \<Rightarrow> error + string"
  extractWordText :: "string \<Rightarrow> error + string"

record process_result =
  success :: bool
  chunksCreated :: nat
  documentInfo :: string
  textLength :: nat

definition extractText :: "extractors \<Rightarrow> string \<Rightarrow> string \<Rightarrow> error + string \<times> string" where
  "extractText ex filePath mimeType =
     (if mimeType = ''application/pdf'' then
        (case extractPDFText ex filePath of
           Inl err \<Rightarrow> Inl err | Inr extractedText \<Rightarrow> Inr (extractedText, ''PDF''))
      else if mimeType = ''application/msword'' \<or>
              mimeType = ''application/vnd.openxmlformats-officedocument.wordprocessingml.document'' then
        (case extractWordText ex filePath of
           Inl err \<Rightarrow> Inl err | Inr extractedText \<Rightarrow> Inr (extractedText, ''Word Document''))
      else Inl (Error (''Unsupported file type: '' @ mimeType)))"

definition mark_failed :: "database \<Rightarrow> int \<Rightarrow> error \<Rightarrow> (error + process_result) \<times> database" where
  \<comment> \<open>the \<open>catch\<close> block of \<open>processDocument\<close>: mark the document as failed and rethrow\<close>
  "mark_failed d documentId err =
     (case updateDocumentProcessed d documentId False of
        Inl err' \<Rightarrow> (Inl err', d)
      | Inr d' \<Rightarrow> (Inl err, d'))"

text \<open>
  \<open>processDocument\<close> returns what it returns or throws, and the database it leaves;
  \<open>None\<close> when the chunker does not return.
\<close>

definition processDocument ::
  "env \<Rightarrow> extractors \<Rightarrow> int \<Rightarrow> string \<Rightarrow> string \<Rightarrow> ((error + process_result) \<times> database) option" where
  "processDocument e ex documentId filePath mimeType =
     (case extractText ex filePath mimeType of
        Inl err \<Rightarrow> Some (mark_failed (dbUtils e) documentId err)
      | Inr (extractedText, info) \<Rightarrow>
          if trim extractedText = []
          then Some (mark_failed (dbUtils e) documentId (Error ''No text content found in document''))
          else (case splitTextIntoChunks extractedText 1000 200 of
                  None \<Rightarrow> None
                | Some chunks \<Rightarrow>
                    (let d = process_chunks e documentId chunks 0 (dbUtils e)
                     in case updateDocumentProcessed d documentId True of
                          Inl err \<Rightarrow> Some (mark_failed d documentId err)
                        | Inr d' \<Rightarrow>
                            Some (Inr \<lparr>success = True, chunksCreated = length chunks,
                                       documentInfo = info, textLength = length extractedText\<rparr>, d'))))"

section \<open>Concrete environments\<close>

text \<open>
  A database that rejects no statement, holding one document of user 1 and one of
  user 2, each with one chunk; an index that holds given rows, keeps those that match
  the \<open>where\<close> clause and returns the first \<open>nResults\<close> of them; a generation service
  that answers every prompt.
\<close>

definition reliable :: "statement \<Rightarrow> bool" where
  "reliable st = False"

definition two_user_store :: database where
  "two_user_store =
     \<lparr>documents =
        [\<lparr>doc_id = 1, user_id = 1, original_name = ''notes.pdf'', processed = True\<rparr>,
         \<lparr>doc_id = 2, user_id = 2, original_name = ''diary.pdf'', processed = True\<rparr>],
      document_chunks =
        [\<lparr>document_id = 1, chunk_text = ''alpha'', chunk_index = 0, embedding_id = ''doc_1_chunk_0''\<rparr>,
         \<lparr>document_id = 2, chunk_text = ''beta'', chunk_index = 0, embedding_id = ''doc_2_chunk_0''\<rparr>],
      rejects = reliable\<rparr>"

definition matches :: "int option \<Rightarrow> query_row \<Rightarrow> bool" where
  "matches whereClause row =
     (case whereClause of None \<Rightarrow> True | Some d \<Rightarrow> meta_document_id (row_metadata row) = d)"

definition flat_index :: "query_row list \<Rightarrow> collection" where
  "flat_index rows =
     \<lparr>coll_query = (\<lambda>queryEmbedding nResults whereClause.
                      Inr (take nResults (filter (matches whereClause) rows))),
      coll_add = (\<lambda>embeddingId embedding text meta. True)\<rparr>"

definition two_user_rows :: "query_row list" where
  "two_user_rows =
     [\<lparr>row_document = ''beta'',
       row_metadata = \<lparr>meta_document_id = 2, meta_chunk_index = 0\<rparr>,
       row_distance = Some 2\<rparr>,
      \<lparr>row_document = ''alpha'',
       row_metadata = \<lparr>meta_document_id = 1, meta_chunk_index = 0\<rparr>,
       row_distance = Some 0.8\<rparr>]"

definition answering :: "string \<Rightarrow> error + string" where
  "answering prompt = Inr ''An answer.''"

definition shared_env :: env where
  "shared_env =
     \<lparr>embedContent = provider_down,
      getCollection = Some (flat_index two_user_rows),
      dbUtils = two_user_store,
      generateContent = answering\<rparr>"

definition single_env :: env where
  "single_env = shared_env\<lparr>getCollection := Some (flat_index [two_user_rows ! 1])\<rparr>"

definition offline_env :: env where
  "offline_env = shared_env\<lparr>getCollection := None\<rparr>"

text \<open>Ten chunks of document 1, for a search with \<open>topK = 10\<close>.\<close>

definition ten_chunk_env :: env where
  "ten_chunk_env =
     offline_env\<lparr>dbUtils := two_user_store\<lparr>document_chunks :=
        map (\<lambda>i. \<lparr>document_id = 1, chunk_text = ''chunk'', chunk_index = int i,
                   embedding_id = ''fallback''\<rparr>) [0..<10]\<rparr>\<rparr>"

definition results_of :: "error + retrieval_result list \<Rightarrow> retrieval_result list" where
  "results_of outcome = (case outcome of Inr results \<Rightarrow> results | Inl err \<Rightarrow> [])"

text \<open>
  For the ingestion loop: the embedding id, the row and the insert statement of the chunk
  at index \<open>i\<close>; the database after an accepted \<open>updateDocumentProcessed(id, true)\<close>;
  a database that rejects every insert of a chunk; and files whose PDF text is given.
\<close>

definition embeddingId_of :: "env \<Rightarrow> int \<Rightarrow> string \<Rightarrow> nat \<Rightarrow> string" where
  "embeddingId_of e documentId chunk i =
     storeInVectorDB (getCollection e) documentId chunk (createEmbeddings (embedContent e) chunk) i"

definition chunk_row :: "env \<Rightarrow> int \<Rightarrow> string \<Rightarrow> nat \<Rightarrow> document_chunk" where
  "chunk_row e documentId chunk i =
     \<lparr>document_id = documentId, chunk_text = chunk, chunk_index = int i,
      embedding_id = embeddingId_of e documentId chunk i\<rparr>"

definition insert_of :: "env \<Rightarrow> int \<Rightarrow> string \<Rightarrow> nat \<Rightarrow> statement" where
  "insert_of e documentId chunk i =
     InsertChunk documentId chunk (int i) (embeddingId_of e documentId chunk i)"

definition refusing :: "statement \<Rightarrow> bool" where
  "refusing st = (case st of InsertChunk documentId chunkText chunkIndex embeddingId \<Rightarrow> True | _ \<Rightarrow> False)"

definition refusing_env :: env where
  "refusing_env = offline_env\<lparr>dbUtils := two_user_store\<lparr>document_chunks := [], rejects := refusing\<rparr>\<rparr>"

definition plain_files :: extractors where
  "plain_files =
     \<lparr>extractPDFText = (\<lambda>filePath. Inr ''Hello world. This is it.''),
      extractWordText = (\<lambda>filePath. Inl (Error ''Failed to extract text from Word document''))\<rparr>"

definition mark_processed :: "database \<Rightarrow> int \<Rightarrow> database" where
  "mark_processed d documentId =
     d\<lparr>documents := map (\<lambda>doc. if doc_id doc = documentId then doc\<lparr>processed := True\<rparr> else doc)
                        (documents d)\<rparr>"

text \<open>
  A text of 1002 characters that the chunker hands to \<open>splitByCharacterLimit\<close>: it has
  no sentence, and its only space is at index 1.
\<close>

definition stuck_text :: string where
  "stuck_text = ''! '' @ replicate 1000 (CHR ''.'')"






definition owner_of :: "database \<Rightarrow> int \<Rightarrow> int option" where
  "owner_of d i = map_option user_id (find (\<lambda>doc. doc_id doc = i) (documents d))"

section \<open>Properties of the fallback embedding\<close>

lemma position_less: "position w < 384"
  by (simp add: position_def nat_less_iff)

lemma length_forEach_word: "length (forEach_word ws i emb) = length emb"
  by (induction ws arbitrary: i emb) simp_all

lemma forEach_word_nth:
  "k < length emb \<Longrightarrow>
   forEach_word ws i emb ! k =
     emb ! k + (\<Sum>j\<leftarrow>[0..<length ws]. if position (ws ! j) = k then 1 / (real (i + j) + 1) else 0)"
proof (induction ws arbitrary: i emb)
  case Nil
  then show ?case by simp
next
  case (Cons w ws)
  let ?emb = "emb[position w := emb ! position w + 1 / (real i + 1)]"
  have len: "k < length ?emb" using Cons.prems by simp
  have shift: "[0..<length (w # ws)] = 0 # map Suc [0..<length ws]"
    by (simp add: upt_conv_Cons map_Suc_upt del: upt_Suc)
  have "forEach_word (w # ws) i emb ! k = forEach_word ws (i + 1) ?emb ! k" by simp
  also have "\<dots> = ?emb ! k +
      (\<Sum>j\<leftarrow>[0..<length ws]. if position (ws ! j) = k then 1 / (real (i + 1 + j) + 1) else 0)"
    by (rule Cons.IH [OF len])
  also have "\<dots> = emb ! k +
      (\<Sum>j\<leftarrow>[0..<length (w # ws)]. if position ((w # ws) ! j) = k then 1 / (real (i + j) + 1) else 0)"
    using Cons.prems unfolding shift
    by (cases "position w = k") (simp_all add: comp_def ac_simps cong: if_cong)
  finally show ?case .
qed

lemma foldl_squares: "foldl (\<lambda>sum val. sum + val * val) a xs = a + (\<Sum>y\<leftarrow>xs. y\<^sup>2)"
  for a :: real
  by (induction xs arbitrary: a) (simp_all add: power2_eq_square)

lemma magnitude_of_eq: "magnitude_of v = sqrt (\<Sum>y\<leftarrow>v. y\<^sup>2)"
  by (simp add: magnitude_of_def foldl_squares)

lemma sum_squares_nonneg: "0 \<le> (\<Sum>y\<leftarrow>v. y\<^sup>2)" for v :: "real list"
  by (induction v) simp_all

lemma sum_squares_zero_iff: "(\<Sum>y\<leftarrow>v. y\<^sup>2) = 0 \<longleftrightarrow> list_all (\<lambda>x. x = 0) v" for v :: "real list"
proof (induction v)
  case Nil
  then show ?case by simp
next
  case (Cons a v)
  have "a\<^sup>2 + (\<Sum>y\<leftarrow>v. y\<^sup>2) = 0 \<longleftrightarrow> a\<^sup>2 = 0 \<and> (\<Sum>y\<leftarrow>v. y\<^sup>2) = 0"
    using sum_squares_nonneg [of v] by (simp add: add_nonneg_eq_0_iff)
  with Cons show ?case by simp
qed

lemma magnitude_pos_iff: "magnitude_of v > 0 \<longleftrightarrow> \<not> list_all (\<lambda>x. x = 0) v"
proof -
  have "magnitude_of v > 0 \<longleftrightarrow> (\<Sum>y\<leftarrow>v. y\<^sup>2) > 0" by (simp add: magnitude_of_eq)
  also have "\<dots> \<longleftrightarrow> (\<Sum>y\<leftarrow>v. y\<^sup>2) \<noteq> 0" using sum_squares_nonneg [of v] by linarith
  finally show ?thesis by (simp add: sum_squares_zero_iff)
qed

lemma forEach_word_spec:
  "forEach_word words 0 (replicate 384 0) = map (spec_weight words) [0..<384]"
proof (rule nth_equalityI)
  show "length (forEach_word words 0 (replicate 384 0)) = length (map (spec_weight words) [0..<384])"
    by (simp add: length_forEach_word)
next
  fix k assume "k < length (forEach_word words 0 (replicate 384 0))"
  then have k: "k < 384" by (simp add: length_forEach_word)
  then show "forEach_word words 0 (replicate 384 0) ! k = map (spec_weight words) [0..<384] ! k"
    using forEach_word_nth [of k "replicate 384 0" words 0]
    by (simp add: spec_weight_def del: upt_Suc cong: if_cong)
qed


lemma length_createFallbackEmbedding: "length (createFallbackEmbedding text) = 384"
  by (simp add: createFallbackEmbedding_def Let_def length_forEach_word)

lemma split_runs_not_Nil: "split_runs P insep cur s \<noteq> []"
  by (induction s arbitrary: insep cur) simp_all

lemma spec_weight_nonneg: "0 \<le> spec_weight words k"
  unfolding spec_weight_def by (rule sum_list_nonneg) auto

lemma spec_weight_first: "1 \<le> spec_weight (w # ws) (position w)"
proof -
  have shift: "[0..<length (w # ws)] = 0 # map Suc [0..<length ws]"
    by (simp add: upt_conv_Cons map_Suc_upt del: upt_Suc)
  have "0 \<le> (\<Sum>i\<leftarrow>map Suc [0..<length ws].
            if position ((w # ws) ! i) = position w then 1 / (real i + 1) else 0)"
    by (rule sum_list_nonneg) auto
  then show ?thesis unfolding spec_weight_def shift by simp
qed

lemma accumulator_not_zero:
  "\<not> list_all (\<lambda>x. x = 0) (map (spec_weight (split_regex is_space s)) [0..<384])"
proof -
  obtain w ws where words: "split_regex is_space s = w # ws"
    using split_runs_not_Nil [of is_space False "[]" s]
    by (cases "split_regex is_space s") (simp_all add: split_regex_def)
  have "spec_weight (w # ws) (position w) \<noteq> 0"
    using spec_weight_first [of w ws] by simp
  moreover have "position w \<in> set [0..<384]" using position_less [of w] by simp
  ultimately show ?thesis unfolding words list_all_iff by auto
qed

lemma sum_list_squares_divide: "(\<Sum>y\<leftarrow>v. y\<^sup>2 / c) = (\<Sum>y\<leftarrow>v. y\<^sup>2) / c" for c :: real
  by (induction v) (simp_all add: add_divide_distrib)

lemma magnitude_normalized:
  assumes "magnitude_of v > 0"
  shows "magnitude_of (map (\<lambda>val. val / magnitude_of v) v) = 1"
proof -
  let ?m = "magnitude_of v"
  have m2: "?m\<^sup>2 = (\<Sum>y\<leftarrow>v. y\<^sup>2)"
    by (simp add: magnitude_of_eq sum_squares_nonneg)
  have "(\<Sum>y\<leftarrow>map (\<lambda>val. val / ?m) v. y\<^sup>2) = (\<Sum>y\<leftarrow>v. y\<^sup>2 / ?m\<^sup>2)"
    by (simp add: comp_def power_divide)
  also have "\<dots> = (\<Sum>y\<leftarrow>v. y\<^sup>2) / ?m\<^sup>2"
    by (rule sum_list_squares_divide)
  also have "\<dots> = 1" using assms unfolding m2 [symmetric] by simp
  finally show ?thesis by (simp add: magnitude_of_eq)
qed

lemma createFallbackEmbedding_unit: "magnitude_of (createFallbackEmbedding text) = 1"
proof -
  define acc where "acc = map (spec_weight (split_regex is_space (toLowerCase text))) [0..<384]"
  have pos: "magnitude_of acc > 0"
    unfolding magnitude_pos_iff acc_def by (rule accumulator_not_zero)
  have "createFallbackEmbedding text = map (\<lambda>val. val / magnitude_of acc) acc"
    using pos unfolding createFallbackEmbedding_def Let_def forEach_word_spec acc_def by simp
  then show ?thesis using magnitude_normalized [OF pos] by simp
qed




text \<open>
  Claim C8. When the call to the embedding provider throws, \<open>createEmbeddings\<close> returns
  the fallback embedding of the text: a vector of length 384 whose squares sum to 1.
  \<open>createEmbeddings\<close> returns a vector on every input, so no error reaches the caller.
  (The all-zero case does not occur: splitting always gives at least one word, and the
  first word adds 1 to its slot.)
\<close>

theorem embed_never_fails:
  assumes "provider text = Inl err"
  shows "createEmbeddings provider text = createFallbackEmbedding text
         \<and> length (createEmbeddings provider text) = 384
         \<and> (\<Sum>y\<leftarrow>createEmbeddings provider text. y\<^sup>2) = 1"
proof -
  have same: "createEmbeddings provider text = createFallbackEmbedding text"
    using assms by (simp add: createEmbeddings_def)
  have "sqrt (\<Sum>y\<leftarrow>createFallbackEmbedding text. y\<^sup>2) = 1"
    using createFallbackEmbedding_unit [of "text"] by (simp add: magnitude_of_eq)
  then have "(\<Sum>y\<leftarrow>createFallbackEmbedding text. y\<^sup>2) = 1" by simp
  then show ?thesis using same length_createFallbackEmbedding by simp
qed

theorem embed_never_fails_witness:
  "createEmbeddings provider_down ''hello world'' = createFallbackEmbedding ''hello world''
   \<and> length (createEmbeddings provider_down ''hello world'') = 384
   \<and> (\<Sum>y\<leftarrow>createEmbeddings provider_down ''hello world''. y\<^sup>2) = 1"
proof -
  have h: "provider_down ''hello world'' = Inl (Error ''unavailable'')"
    by (simp add: provider_down_def)
  show ?thesis by (rule embed_never_fails [of provider_down "''hello world''", OF h])
qed

lemmas env_defs = shared_env_def offline_env_def single_env_def ten_chunk_env_def two_user_store_def reliable_def
  flat_index_def two_user_rows_def answering_def matches_def

section \<open>Properties of the similarity scores\<close>

lemma fallback_search_unscoped: "fallback_search first d None topK = Inr []"
  by (simp add: fallback_search_def)






section \<open>Properties of the search scope\<close>

text \<open>
  Claim C5, as amended. A search without a document scope is not restricted to any user:
  with a collection, the index is queried without a \<open>where\<close> clause and its rows are
  returned as they come (none when the query throws); without a collection, the result
  is empty. The result does not depend on the database, so it does not depend on who
  owns which document.
\<close>

theorem unscoped_search_is_unfiltered:
  "searchSimilarChunks e query None topK =
     (case getCollection e of
        None \<Rightarrow> Inr []
      | Some c \<Rightarrow>
          (case coll_query c (createEmbeddings (embedContent e) query) topK None of
             Inr rows \<Rightarrow> Inr (map format_row rows)
           | Inl err \<Rightarrow> Inr []))
   \<and> searchSimilarChunks (e\<lparr>dbUtils := d\<rparr>) query None topK = searchSimilarChunks e query None topK"
  by (simp add: searchSimilarChunks_def fallback_search_unscoped truthy_def Let_def
           split: option.splits sum.splits)

theorem unscoped_search_is_unfiltered_witness:
  "searchSimilarChunks shared_env ''alpha'' None 1 =
     Inr [\<lparr>res_text = ''beta'',
           res_metadata = \<lparr>meta_document_id = 2, meta_chunk_index = 0\<rparr>,
           similarity = - 1, res_documentId = 2, res_chunkIndex = 0\<rparr>]
   \<and> searchSimilarChunks (shared_env\<lparr>dbUtils := \<lparr>documents = [], document_chunks = [], rejects = reliable\<rparr>\<rparr>)
         ''alpha'' None 1 = searchSimilarChunks shared_env ''alpha'' None 1"
  using unscoped_search_is_unfiltered [of shared_env "''alpha''" 1
          "\<lparr>documents = [], document_chunks = [], rejects = reliable\<rparr>"]
  by (simp add: env_defs format_row_def)

text \<open>
  Claim C5 as stated fails: the unscoped search over an index that holds chunks of two
  users returns passages of both, whoever asks; and without a collection it returns
  nothing although the database holds chunks.
\<close>

theorem unscoped_search_crosses_users:
  "map (\<lambda>r. owner_of (dbUtils shared_env) (res_documentId r))
       (results_of (searchSimilarChunks shared_env ''alpha'' None 3)) = [Some 2, Some 1]
   \<and> searchSimilarChunks offline_env ''alpha'' None 3 = Inr []
   \<and> map document_id (document_chunks (dbUtils offline_env)) = [1, 2]"
  by (simp add: searchSimilarChunks_def env_defs format_row_def truthy_def fallback_search_def
        results_of_def owner_of_def)




section \<open>Properties of the composition\<close>



text \<open>
  Claim C2, as amended. When retrieval returns zero passages, the document-scoped
  composition returns the fixed "no grounding" response, with confidence 0, and sends
  no prompt to the generation service. The general composition does call the generation
  service, once, with the prompt that has no context; its confidence is 50 when the
  service answers (and 0, with the apology, when the service throws).
\<close>

theorem zero_passages_composition:
  "(searchSimilarChunks e query (Some documentId) 5 = Inr [] \<longrightarrow>
      generateDocumentResponse e query documentId conversationHistory = (no_grounding, []))
   \<and> confidence no_grounding = 0
   \<and> (searchSimilarChunks e query None 3 = Inr [] \<longrightarrow>
      snd (generateGeneralResponse e query conversationHistory)
        = [general_prompt None (historyContext_of 4 conversationHistory) query]
      \<and> confidence (fst (generateGeneralResponse e query conversationHistory))
        = (case generateContent e (general_prompt None (historyContext_of 4 conversationHistory) query) of
             Inr text \<Rightarrow> 50 | Inl err \<Rightarrow> 0))"
  by (auto simp: generateDocumentResponse_def generateGeneralResponse_def no_grounding_def
        general_error_def Let_def split: sum.splits error.splits)

theorem zero_passages_composition_witness:
  "generateDocumentResponse offline_env ''What is X?'' 3 [] = (no_grounding, [])
   \<and> snd (generateGeneralResponse offline_env ''What is X?'' [])
        = [general_prompt None (historyContext_of 4 []) ''What is X?'']
   \<and> confidence (fst (generateGeneralResponse offline_env ''What is X?'' [])) = 50"
proof -
  have scoped: "searchSimilarChunks offline_env ''What is X?'' (Some 3) 5 = Inr []"
    by (simp add: searchSimilarChunks_def env_defs fallback_search_def getDocumentChunks_def)
  have general: "searchSimilarChunks offline_env ''What is X?'' None 3 = Inr []"
    by (simp add: searchSimilarChunks_def env_defs fallback_search_def)
  have answer: "generateContent offline_env (general_prompt None (historyContext_of 4 []) ''What is X?'')
                  = Inr ''An answer.''"
    by (simp add: env_defs)
  from zero_passages_composition [of offline_env "''What is X?''" 3 "[]"] scoped general answer
  show ?thesis by simp
qed

text \<open>
  Claim C2 as stated fails for the general composition: with zero passages it sends a
  prompt to the generation service and returns the answer with confidence 50.
\<close>

theorem general_response_does_not_short_circuit:
  "searchSimilarChunks offline_env ''What is X?'' None 3 = Inr []
   \<and> generateGeneralResponse offline_env ''What is X?'' [] =
       (\<lparr>resp_response = ''An answer.'', resp_sources = [], confidence = 50,
         resp_documentName = None, resp_error = None\<rparr>,
        [general_prompt None [] ''What is X?''])"
  by (simp add: generateGeneralResponse_def searchSimilarChunks_def env_defs fallback_search_def
        historyContext_of_def)





section \<open>Properties of ingestion\<close>

lemma process_chunks_Cons:
  "process_chunks e documentId (chunk # chunks) i d =
     process_chunks e documentId chunks (Suc i)
       (if rejects d (insert_of e documentId chunk i) then d
        else d\<lparr>document_chunks := document_chunks d @ [chunk_row e documentId chunk i]\<rparr>)"
  by (simp add: Let_def createDocumentChunk_def insert_of_def embeddingId_of_def chunk_row_def)

lemma process_chunks_frame:
  "rejects (process_chunks e documentId chunks i d) = rejects d
   \<and> documents (process_chunks e documentId chunks i d) = documents d"
proof (induction chunks arbitrary: i d)
  case Nil
  show ?case by simp
next
  case (Cons chunk chunks)
  show ?case unfolding process_chunks_Cons by (simp add: Cons.IH)
qed

lemma process_chunks_keeps:
  "set (document_chunks d) \<subseteq> set (document_chunks (process_chunks e documentId chunks i d))"
proof (induction chunks arbitrary: i d)
  case Nil
  show ?case by simp
next
  case (Cons chunk chunks)
  let ?d = "if rejects d (insert_of e documentId chunk i) then d
            else d\<lparr>document_chunks := document_chunks d @ [chunk_row e documentId chunk i]\<rparr>"
  have "set (document_chunks d) \<subseteq> set (document_chunks ?d)" by auto
  also have "\<dots> \<subseteq> set (document_chunks (process_chunks e documentId chunks (Suc i) ?d))"
    by (rule Cons.IH)
  finally show ?case unfolding process_chunks_Cons .
qed

lemma process_chunks_stores:
  "j < length chunks \<Longrightarrow>
   \<not> rejects d (insert_of e documentId (chunks ! j) (i + j)) \<Longrightarrow>
   chunk_row e documentId (chunks ! j) (i + j)
     \<in> set (document_chunks (process_chunks e documentId chunks i d))"
proof (induction chunks arbitrary: i j d)
  case Nil
  then show ?case by simp
next
  case (Cons chunk chunks)
  let ?d = "if rejects d (insert_of e documentId chunk i) then d
            else d\<lparr>document_chunks := document_chunks d @ [chunk_row e documentId chunk i]\<rparr>"
  have same: "rejects ?d = rejects d" by simp
  show ?case
  proof (cases j)
    case 0
    with Cons.prems have "\<not> rejects d (insert_of e documentId chunk i)" by simp
    then have "chunk_row e documentId chunk i \<in> set (document_chunks ?d)" by simp
    then have "chunk_row e documentId chunk i
                 \<in> set (document_chunks (process_chunks e documentId chunks (Suc i) ?d))"
      using process_chunks_keeps [of ?d e documentId chunks "Suc i"] by blast
    then show ?thesis unfolding process_chunks_Cons using 0 by simp
  next
    case (Suc j')
    from Cons.prems Suc have len: "j' < length chunks" by simp
    from Cons.prems Suc have ok: "\<not> rejects ?d (insert_of e documentId (chunks ! j') (Suc i + j'))"
      unfolding same by simp
    have "chunk_row e documentId (chunks ! j') (Suc i + j')
            \<in> set (document_chunks (process_chunks e documentId chunks (Suc i) ?d))"
      by (rule Cons.IH [OF len ok])
    then show ?thesis unfolding process_chunks_Cons using Suc by simp
  qed
qed

lemma updateDocumentProcessed_accepted:
  "\<not> rejects d (UpdateProcessed documentId True) \<Longrightarrow>
   updateDocumentProcessed d documentId True = Inr (mark_processed d documentId)"
  by (simp add: updateDocumentProcessed_def mark_processed_def)

lemma mark_processed_marks:
  "doc \<in> set (documents (mark_processed d documentId)) \<Longrightarrow> doc_id doc = documentId \<Longrightarrow> processed doc"
proof -
  assume mem: "doc \<in> set (documents (mark_processed d documentId))" and same: "doc_id doc = documentId"
  from mem have "doc \<in> (\<lambda>x. if doc_id x = documentId then x\<lparr>processed := True\<rparr> else x) ` set (documents d)"
    by (simp add: mark_processed_def)
  then obtain x where
    doc: "doc = (if doc_id x = documentId then x\<lparr>processed := True\<rparr> else x)"
    by (rule imageE)
  show "processed doc"
  proof (cases "doc_id x = documentId")
    case True
    with doc show ?thesis by simp
  next
    case False
    with doc same show ?thesis by simp
  qed
qed

lemma mark_processed_chunks: "document_chunks (mark_processed d documentId) = document_chunks d"
  by (simp add: mark_processed_def)

text \<open>
  Claim C7, as amended. When extraction gives a text that is not blank, the chunker
  returns and the final update of the document is accepted, ingestion returns
  successfully whatever happens to the single chunks: the document is marked processed,
  every chunk whose insert the database accepts is stored, also after an insert that was
  rejected, and \<open>chunksCreated\<close> is the number of chunks the chunker produced, not the
  number of chunks stored.
\<close>

theorem ingestion_tolerates_chunk_failures:
  assumes extraction: "extractText ex filePath mimeType = Inr (extractedText, info)"
      and content: "trim extractedText \<noteq> []"
      and chunker: "splitTextIntoChunks extractedText 1000 200 = Some chunks"
      and final: "\<not> rejects (dbUtils e) (UpdateProcessed documentId True)"
  shows "\<exists>d'. processDocument e ex documentId filePath mimeType =
               Some (Inr \<lparr>success = True, chunksCreated = length chunks,
                          documentInfo = info, textLength = length extractedText\<rparr>, d')
           \<and> (\<forall>doc \<in> set (documents d'). doc_id doc = documentId \<longrightarrow> processed doc)
           \<and> (\<forall>j < length chunks.
                 \<not> rejects (dbUtils e) (insert_of e documentId (chunks ! j) j) \<longrightarrow>
                 chunk_row e documentId (chunks ! j) j \<in> set (document_chunks d'))"
proof -
  define d where "d = process_chunks e documentId chunks 0 (dbUtils e)"
  define d' where "d' = mark_processed d documentId"
  have "\<not> rejects d (UpdateProcessed documentId True)"
    using final by (simp add: d_def process_chunks_frame)
  then have upd: "updateDocumentProcessed d documentId True = Inr d'"
    unfolding d'_def by (rule updateDocumentProcessed_accepted)
  have run: "processDocument e ex documentId filePath mimeType =
               Some (Inr \<lparr>success = True, chunksCreated = length chunks,
                          documentInfo = info, textLength = length extractedText\<rparr>, d')"
    using extraction content chunker upd by (simp add: processDocument_def Let_def d_def)
  have marked: "\<forall>doc \<in> set (documents d'). doc_id doc = documentId \<longrightarrow> processed doc"
    unfolding d'_def using mark_processed_marks by blast
  have stored: "\<forall>j < length chunks.
                 \<not> rejects (dbUtils e) (insert_of e documentId (chunks ! j) j) \<longrightarrow>
                 chunk_row e documentId (chunks ! j) j \<in> set (document_chunks d')"
  proof (intro allI impI)
    fix j assume "j < length chunks"
      and "\<not> rejects (dbUtils e) (insert_of e documentId (chunks ! j) j)"
    then show "chunk_row e documentId (chunks ! j) j \<in> set (document_chunks d')"
      using process_chunks_stores [of j chunks "dbUtils e" e documentId 0]
      by (simp add: d'_def d_def mark_processed_chunks)
  qed
  from run marked stored show ?thesis by blast
qed

lemma clean_hello: "clean_text ''Hello world. This is it.'' = ''Hello world. This is it.''"
  by code_simp

lemma hello_chunks: "splitTextIntoChunks ''Hello world. This is it.'' 1000 200 = Some [''Hello world This is it'']"
  unfolding splitTextIntoChunks_def clean_hello
  by (simp add: sentences_of_def split_regex_def is_terminal_def trim_def is_space_def)

text \<open>
  Claim C7 as stated fails in its last part: when the insert of the only chunk is
  rejected, no chunk is stored and \<open>chunksCreated\<close> is still 1.
\<close>

theorem chunksCreated_counts_failed_chunks:
  "map_option (\<lambda>(outcome, d). (outcome, document_chunks d))
     (processDocument refusing_env plain_files 1 ''notes.pdf'' ''application/pdf'')
   = Some (Inr \<lparr>success = True, chunksCreated = 1, documentInfo = ''PDF'', textLength = 24\<rparr>, [])"
  by (simp add: processDocument_def extractText_def plain_files_def hello_chunks trim_def is_space_def
        refusing_env_def env_defs Let_def createDocumentChunk_def updateDocumentProcessed_def refusing_def)

theorem ingestion_tolerates_chunk_failures_witness:
  "\<exists>d'. processDocument offline_env plain_files 1 ''notes.pdf'' ''application/pdf'' =
               Some (Inr \<lparr>success = True, chunksCreated = length [''Hello world This is it''],
                          documentInfo = ''PDF'', textLength = length ''Hello world. This is it.''\<rparr>, d')
           \<and> (\<forall>doc \<in> set (documents d'). doc_id doc = 1 \<longrightarrow> processed doc)
           \<and> (\<forall>j < length [''Hello world This is it''].
                 \<not> rejects (dbUtils offline_env) (insert_of offline_env 1 ([''Hello world This is it''] ! j) j) \<longrightarrow>
                 chunk_row offline_env 1 ([''Hello world This is it''] ! j) j \<in> set (document_chunks d'))"
proof -
  have extraction: "extractText plain_files ''notes.pdf'' ''application/pdf'' = Inr (''Hello world. This is it.'', ''PDF'')"
    by (simp add: extractText_def plain_files_def)
  have content: "trim ''Hello world. This is it.'' \<noteq> []"
    by (simp add: trim_def is_space_def)
  have final: "\<not> rejects (dbUtils offline_env) (UpdateProcessed 1 True)"
    by (simp add: env_defs)
  show ?thesis
    by (rule ingestion_tolerates_chunk_failures [OF extraction content hello_chunks final])
qed


section \<open>Termination of the character-limit splitter\<close>

lemma last_index_scan_replicate:
  "x \<noteq> c \<Longrightarrow> last_index_scan c (replicate n x) i best = best"
  by (induction n arbitrary: i) simp_all

lemma length_stuck_text: "length stuck_text = 1002"
  by (simp add: stuck_text_def)

lemma lastIndexOf_stuck_text:
  assumes "1 \<le> p" and "p \<le> 1001"
  shows "lastIndexOf stuck_text (CHR '' '') p = 1"
proof -
  have pos: "nat (min (max p 0) (int (length stuck_text) - 1)) + 1 = Suc (Suc (nat (p - 1)))"
    using assms by (simp add: length_stuck_text)
  have "take (Suc (Suc (nat (p - 1)))) stuck_text = ''! '' @ replicate (min 1000 (nat (p - 1))) (CHR ''.'')"
    by (simp add: stuck_text_def)
  then show ?thesis
    unfolding lastIndexOf_def pos by (simp add: last_index_scan_replicate)
qed

lemma stuck_step:
  "splitByCharacterLimit_loop stuck_text 1000 200 (- 199) chunks =
   splitByCharacterLimit_loop stuck_text 1000 200 (- 199)
     (chunks @ [trim (slice stuck_text (- 199) 1)])"
  by (subst splitByCharacterLimit_loop.simps)
     (simp add: length_stuck_text lastIndexOf_stuck_text Let_def)

lemma stuck_forever:
  "splitByCharacterLimit_loop stuck_text 1000 200 (- 199) chunks = None"
proof (cases "splitByCharacterLimit_loop stuck_text 1000 200 (- 199) chunks")
  case None
  then show ?thesis .
next
  case (Some result)
  let ?running = "\<lambda>t m ov s (cs :: string list) (y :: string list).
                    \<not> (t = stuck_text \<and> m = (1000 :: int) \<and> ov = (200 :: int) \<and> s = (- 199 :: int))"
  have "?running stuck_text 1000 200 (- 199) chunks result"
  proof (rule splitByCharacterLimit_loop.raw_induct [where P = ?running, OF _ Some])
    fix loop t m ov s cs y
    assume ih: "\<And>t m ov s cs y. loop t m ov s cs = Some y \<Longrightarrow> ?running t m ov s cs y"
    assume body: "(if s < int (length t)
         then let end0 = s + m;
                  lastSpaceIndex = lastIndexOf t (CHR '' '') end0;
                  end = (if end0 < int (length t) \<and> s < lastSpaceIndex then lastSpaceIndex else end0)
              in loop t m ov (end - ov) (cs @ [trim (slice t s end)])
         else Some (filter (\<lambda>chunk. 0 < length chunk) cs)) = Some y"
    show "?running t m ov s cs y"
    proof
      assume st: "t = stuck_text \<and> m = 1000 \<and> ov = 200 \<and> s = - 199"
      with body have "loop stuck_text 1000 200 (- 199)
                             (cs @ [trim (slice stuck_text (- 199) 1)]) = Some y"
        by (simp add: length_stuck_text lastIndexOf_stuck_text Let_def)
      from ih [OF this] show False by simp
    qed
  qed
  then show ?thesis by simp
qed

lemma splitByCharacterLimit_does_not_return:
  "splitByCharacterLimit stuck_text 1000 200 = None"
proof -
  have "splitByCharacterLimit stuck_text 1000 200 =
        splitByCharacterLimit_loop stuck_text 1000 200 (- 199) ([] @ [trim (slice stuck_text 0 1)])"
    unfolding splitByCharacterLimit_def
    by (subst splitByCharacterLimit_loop.simps)
       (simp add: length_stuck_text lastIndexOf_stuck_text Let_def)
  then show ?thesis by (simp only: stuck_forever)
qed


lemma replace_runs_replicate:
  "\<not> P x \<Longrightarrow> replace_runs P r insep (replicate n x) = replicate n x"
  by (induction n arbitrary: insep) simp_all

lemma match_marker_other: "c \<noteq> CHR ''-'' \<Longrightarrow> match_marker (c # cs) = None"
  by (simp add: match_marker_def)

lemma remove_markers_replicate:
  "x \<noteq> CHR ''-'' \<Longrightarrow> remove_markers (replicate n x) = replicate n x"
  by (induction n) (simp_all add: match_marker_other)

lemma dropWhile_replicate_append:
  "0 < n \<Longrightarrow> \<not> P x \<Longrightarrow> dropWhile P (replicate n x @ ys) = replicate n x @ ys"
  by (cases n) simp_all

lemma split_runs_replicate:
  "P x \<Longrightarrow> split_runs P True [] (replicate n x) = [[]]"
  by (induction n) simp_all

lemma split_runs_replicate_first:
  "P x \<Longrightarrow> 0 < n \<Longrightarrow> split_runs P False cur (replicate n x) = [cur, []]"
  by (cases n) (simp_all add: split_runs_replicate)

lemma clean_stuck_text: "clean_text stuck_text = stuck_text"
proof -
  have ws: "replace_runs is_space (CHR '' '') False stuck_text = stuck_text"
    by (simp add: stuck_text_def is_space_def replace_runs_replicate)
  have nls: "replace_runs (\<lambda>c. c = CHR 0x0A) (CHR 0x0A) False stuck_text = stuck_text"
    by (simp add: stuck_text_def replace_runs_replicate)
  have markers: "remove_markers stuck_text = stuck_text"
    by (simp add: stuck_text_def match_marker_other remove_markers_replicate)
  have "rev stuck_text = replicate 1000 (CHR ''.'') @ '' !''"
    by (simp add: stuck_text_def)
  then have "dropWhile is_space (rev stuck_text) = rev stuck_text"
    by (simp add: dropWhile_replicate_append is_space_def)
  moreover have "dropWhile is_space stuck_text = stuck_text"
    by (simp add: stuck_text_def is_space_def)
  ultimately have "trim stuck_text = stuck_text"
    by (simp add: trim_def)
  then show ?thesis
    by (simp add: clean_text_def ws nls markers)
qed

lemma sentences_stuck_text: "sentences_of stuck_text = []"
proof -
  have "split_regex is_terminal stuck_text = [[], '' '', []]"
    by (simp add: split_regex_def stuck_text_def is_terminal_def split_runs_replicate_first)
  then show ?thesis by (simp add: sentences_of_def trim_def is_space_def)
qed

text \<open>
  Claim C10 fails on the code. With \<open>maxChunkSize = 1000\<close> and \<open>overlapSize = 200\<close>, the
  first slice of \<open>stuck_text\<close> is snapped back to the space at index 1, so the next
  start is \<open>1 - 200 = -199\<close>; from there every round snaps to the same space and starts
  again at \<open>-199\<close>. The loop never ends, and neither does the chunker, which reaches it
  with this text.
\<close>

theorem chunker_does_not_return:
  "splitByCharacterLimit stuck_text 1000 200 = None
   \<and> splitTextIntoChunks stuck_text 1000 200 = None"
proof -
  have direct: "splitByCharacterLimit stuck_text 1000 200 = None"
    by (rule splitByCharacterLimit_does_not_return)
  have "stuck_text \<noteq> []" by (simp add: stuck_text_def)
  then have "splitTextIntoChunks stuck_text 1000 200 = splitByCharacterLimit stuck_text 1000 200"
    by (simp add: splitTextIntoChunks_def Let_def clean_stuck_text sentences_stuck_text trim_def
          length_stuck_text)
  with direct show ?thesis by simp
qed

section \<open>Properties of the chunker\<close>

subsection \<open>trim\<close>






subsection \<open>The loop over the sentences\<close>






subsection \<open>lastIndexOf and slice\<close>







subsection \<open>The character-limit splitter\<close>





subsection \<open>The length of a chunk\<close>








text \<open>
  The size test does not count the space that joins two sentences, so a chunk without
  overlap can be one character over the limit.
\<close>

lemma chunk_one_over_limit:
  "splitTextIntoChunks ''aaaaa. bbbbb. c'' 10 10 = Some [''aaaaa bbbbb'', ''bbbbb c'']"
proof -
  have clean: "clean_text ''aaaaa. bbbbb. c'' = ''aaaaa. bbbbb. c''"
    by code_simp
  have sentences: "sentences_of ''aaaaa. bbbbb. c'' = [''aaaaa'', '' bbbbb'', '' c'']"
    by (simp add: sentences_of_def split_regex_def is_terminal_def trim_def is_space_def)
  show ?thesis
    by (simp add: splitTextIntoChunks_def Let_def clean sentences trim_def is_space_def
          seed_def slice_last_def)
qed

end
